theory Spec2Isabelle
  imports Complex_Main "HOL-Library.Sublist"
begin

section \<open>Data model of app4.py\<close>

text \<open>
  The script is embedded function by function. A Python float is a \<^typ>\<open>real\<close>. The one
  arithmetic operation the script itself performs on floats, the product \<open>prob * 100\<close>,
  is rounded as a binary64 product is. The arithmetic inside the libraries is modelled
  from the specification, over the reals. A float literal stands for the nearest binary64
  value; each literal compared with \<open>>=\<close> here (0.5, 0.2, 6.5, 5.7) is exact or rounds
  upwards, so on binary64 values the comparison with the literal and the comparison
  with the decimal agree. Where the libraries would meet a NaN or an infinity the model
  raises the error the library raises. Text templates are kept
  as constructors that carry the values formatted into them; labels drop accents and
  emoji. The flags \<open>ht_val\<close> and \<open>cp_val\<close> are the numbers 1 and 0, as in the dict.
\<close>

datatype error =
    KeyError string
  | AttributeError
  | ValueError

text \<open>The five sidebar widgets (\<open>st.number_input\<close> and \<open>st.checkbox\<close>).\<close>

record sidebar =
  glucosa :: real
  hba1c :: real
  imc :: real
  hipertension :: bool
  cardiopatia :: bool

definition ht_val :: "sidebar \<Rightarrow> real" where
  "ht_val s = (if hipertension s then 1 else 0)"

definition cp_val :: "sidebar \<Rightarrow> real" where
  "cp_val s = (if cardiopatia s then 1 else 0)"

definition FEATURES :: "string list" where
  "FEATURES = [''nivel_glucosa'', ''nivel_hba1c'', ''imc'', ''hipertension'', ''cardiopatia'']"

text \<open>The dict \<open>patient_data\<close>, keyed by feature name.\<close>

definition patient_data :: "sidebar \<Rightarrow> (string \<rightharpoonup> real)" where
  "patient_data s =
     [''nivel_glucosa'' \<mapsto> glucosa s,
      ''nivel_hba1c'' \<mapsto> hba1c s,
      ''imc'' \<mapsto> imc s,
      ''hipertension'' \<mapsto> ht_val s,
      ''cardiopatia'' \<mapsto> cp_val s]"

text \<open>
  The unpickled objects: a fitted \<open>StandardScaler\<close> (\<open>mean_\<close>, \<open>scale_\<close>) and a fitted
  binary \<open>LogisticRegression\<close> (\<open>coef_\<close>, \<open>intercept_\<close>).
\<close>

record scaler =
  sc_mean :: "real list"
  sc_scale :: "real list"

record model =
  coef :: "real list"
  intercept :: real

text \<open>One row of \<open>odds_ratios_reales.csv\<close>: columns "Variable Clinica" and "Odds Ratio (OR)".\<close>

record or_row =
  variable_clinica :: string
  odds_ratio :: real

type_synonym or_table = "or_row list"

section \<open>Resource loading\<close>

text \<open>What is on disk: each of the three files is present with its content, or absent.\<close>

record disk =
  modelo_diabetes_logreg_pkl :: "model option"
  scaler_diabetes_pkl :: "scaler option"
  odds_ratios_reales_csv :: "or_table option"

datatype notice =
    StSuccess
  | StError string

text \<open>
  \<open>load_resources\<close>: the three names start as \<open>None\<close>; one \<open>try\<close> block loads model, scaler
  and table in that order; the first \<open>FileNotFoundError\<close> leaves the block, so every name
  not yet assigned stays \<open>None\<close>, and \<open>st.error\<close> shows \<open>e.filename\<close>.
\<close>

definition load_resources :: "disk \<Rightarrow> (model option \<times> scaler option \<times> or_table option) \<times> notice" where
  "load_resources d =
     (case modelo_diabetes_logreg_pkl d of
        None \<Rightarrow> ((None, None, None), StError ''modelo_diabetes_logreg.pkl'')
      | Some m \<Rightarrow>
          (case scaler_diabetes_pkl d of
             None \<Rightarrow> ((Some m, None, None), StError ''scaler_diabetes.pkl'')
           | Some s \<Rightarrow>
               (case odds_ratios_reales_csv d of
                  None \<Rightarrow> ((Some m, Some s, None), StError ''odds_ratios_reales.csv'')
                | Some t \<Rightarrow> ((Some m, Some s, Some t), StSuccess))))"

section \<open>Prediction\<close>

text \<open>
  \<open>pd.DataFrame([data], columns=FEATURES)\<close>: one row, the columns picked by name in the
  order of \<open>FEATURES\<close>; a key the dict lacks gives NaN, here \<open>None\<close>.
\<close>

definition DataFrame :: "(string \<rightharpoonup> real) \<Rightarrow> string list \<Rightarrow> real option list" where
  "DataFrame data columns = map data columns"

text \<open>
  Modelled from the spec: \<open>StandardScaler.transform\<close> is library code, absent from the
  repository. Each feature is standardised as \<open>(x - mean) / scale\<close>. A row of the wrong
  width is rejected with \<open>ValueError\<close>. A zero scale would give an infinity or a NaN, which
  the classifier's input check rejects with \<open>ValueError\<close>; the model raises it here.
\<close>

definition transform :: "scaler \<Rightarrow> real list \<Rightarrow> error + real list" where
  "transform sc xs =
     (if length xs \<noteq> length (sc_mean sc) \<or> length xs \<noteq> length (sc_scale sc) \<or> 0 \<in> set (sc_scale sc)
      then Inl ValueError
      else Inr (map (\<lambda>(x, m, s). (x - m) / s) (zip xs (zip (sc_mean sc) (sc_scale sc)))))"

definition expit :: "real \<Rightarrow> real" where
  "expit L = 1 / (1 + exp (- L))"

text \<open>
  Modelled from the spec: \<open>LogisticRegression.predict_proba\<close> is library code, absent from
  the repository. The logit is the intercept plus the dot product of the weights with
  the standardised row; the row of the result is the pair of class probabilities,
  class 1 being the sigmoid of the logit.
\<close>

definition decision_function :: "model \<Rightarrow> real list \<Rightarrow> real" where
  "decision_function m zs = intercept m + sum_list (map (\<lambda>(w, z). w * z) (zip (coef m) zs))"

definition predict_proba :: "model \<Rightarrow> real list \<Rightarrow> error + real \<times> real" where
  "predict_proba m zs =
     (if length zs \<noteq> length (coef m) then Inl ValueError
      else Inr (1 - expit (decision_function m zs), expit (decision_function m zs)))"

text \<open>
  \<open>predict_diabetes\<close>, with the globals \<open>MODEL\<close> and \<open>SCALER\<close> as parameters. The result is
  the pair \<open>(prob, input_df)\<close>; \<open>[0][1]\<close> is the second component of the row.
\<close>

definition predict_diabetes ::
  "model option \<Rightarrow> scaler option \<Rightarrow> (string \<rightharpoonup> real) \<Rightarrow> error + real \<times> real option list option" where
  "predict_diabetes MODEL SCALER data =
     (case (MODEL, SCALER) of
        (Some m, Some sc) \<Rightarrow>
          (let input_df = DataFrame data FEATURES in
           case those input_df of
             None \<Rightarrow> Inl ValueError
           | Some xs \<Rightarrow>
               (case transform sc xs of
                  Inl e \<Rightarrow> Inl e
                | Inr scaled_data \<Rightarrow>
                    (case predict_proba m scaled_data of
                       Inl e \<Rightarrow> Inl e
                     | Inr row \<Rightarrow> Inr (snd row, Some input_df))))
      | _ \<Rightarrow> Inr (0, None))"

section \<open>Section 1: gauge, banner, parameter table, metrics\<close>

text \<open>
  The product of two Python floats is the exact product rounded to the nearest binary64
  value, ties to the even significand. \<open>ulp_exponent\<close> is the exponent of the last
  significand bit (53 bits; from \<open>- 1074\<close> in the subnormal range). Overflow to infinity
  is not modelled: the products of the script are those of a probability with 100.
\<close>

definition round_half_even :: "real \<Rightarrow> int" where
  "round_half_even q =
     (let n = \<lfloor>q\<rfloor>; r = q - of_int n in
      if r < 1 / 2 then n else if r > 1 / 2 then n + 1 else if even n then n else n + 1)"

definition ulp_exponent :: "real \<Rightarrow> int" where
  "ulp_exponent x = max (\<lfloor>log 2 \<bar>x\<bar>\<rfloor> - 52) (- 1074)"

definition float64 :: "real \<Rightarrow> real" where
  "float64 x =
     (if x = 0 then 0
      else of_int (round_half_even (x / 2 powi ulp_exponent x)) * 2 powi ulp_exponent x)"

record gauge =
  gauge_value :: real
  bar_color :: string
  number_color :: string

definition create_gauge_chart :: "real \<Rightarrow> gauge" where
  "create_gauge_chart probability =
     (if probability \<ge> 0.5 then
        \<lparr>gauge_value = float64 (probability * 100), bar_color = ''#EF476F'', number_color = ''#EF476F''\<rparr>
      else if probability \<ge> 0.2 then
        \<lparr>gauge_value = float64 (probability * 100), bar_color = ''#FFD166'', number_color = ''#FFD166''\<rparr>
      else
        \<lparr>gauge_value = float64 (probability * 100), bar_color = ''#06D6A0'', number_color = ''#06D6A0''\<rparr>)"

definition riesgo_pct :: "real \<Rightarrow> real" where
  "riesgo_pct prob = float64 (prob * 100)"

text \<open>
  The banner shown (CSS class \<open>alert-high\<close>, \<open>alert-medium\<close>, \<open>alert-low\<close>) and the
  recommendation text chosen with it, named by its opening words.
\<close>

datatype alert = AlertHigh | AlertMedium | AlertLow

datatype recomendacion = AccionInmediata | MonitoreoActivo | Prevencion

definition interpretacion :: "real \<Rightarrow> alert \<times> recomendacion" where
  "interpretacion pct =
     (if pct \<ge> 50 then (AlertHigh, AccionInmediata)
      else if pct \<ge> 20 then (AlertMedium, MonitoreoActivo)
      else (AlertLow, Prevencion))"

definition riesgo_categoria :: "real \<Rightarrow> string" where
  "riesgo_categoria pct = (if pct \<ge> 50 then ''ALTO'' else if pct \<ge> 20 then ''MODERADO'' else ''BAJO'')"

definition confianza :: "real \<Rightarrow> nat" where
  "confianza pct = (if pct > 70 \<or> pct < 30 then 95 else 85)"

text \<open>The column \<open>Estado\<close> of \<open>params_display\<close>, one entry per parameter, in row order.\<close>

datatype estado = Elevado | Prediabetes | Sobrepeso | Normal | Presente | Ausente

definition params_display :: "sidebar \<Rightarrow> (string \<times> estado) list" where
  "params_display s =
     [(''Glucosa'', if glucosa s > 125 then Elevado else Normal),
      (''HbA1c'', if hba1c s \<ge> 6.5 then Elevado else if hba1c s \<ge> 5.7 then Prediabetes else Normal),
      (''IMC'', if imc s > 30 then Elevado else if imc s > 25 then Sobrepeso else Normal),
      (''Hipertension'', if ht_val s = 1 then Presente else Ausente),
      (''Cardiopatia'', if cp_val s = 1 then Presente else Ausente)]"

section \<open>Section 2: odds-ratio chart\<close>

text \<open>
  \<open>str.replace\<close> for a non-empty \<open>old\<close> (every call below passes a non-empty literal):
  occurrences are replaced from the left and do not overlap. The counter is the number
  of characters of a matched occurrence still to be skipped.
\<close>

fun replace_from :: "string \<Rightarrow> string \<Rightarrow> nat \<Rightarrow> string \<Rightarrow> string" where
  "replace_from old new skip [] = []"
| "replace_from old new (Suc k) (c # cs) = replace_from old new k cs"
| "replace_from old new 0 (c # cs) =
     (if prefix old (c # cs) then new @ replace_from old new (length old - 1) cs
      else c # replace_from old new 0 cs)"

definition replace :: "string \<Rightarrow> string \<Rightarrow> string \<Rightarrow> string" where
  "replace old new s = replace_from old new 0 s"

text \<open>
  \<open>str.title\<close> on ASCII text: a letter that follows a letter is lowered, a letter that
  follows anything else is raised, and a character that is not a letter (a digit too)
  starts a new word.
\<close>

definition is_lower :: "char \<Rightarrow> bool" where
  "is_lower c = (97 \<le> (of_char c :: nat) \<and> (of_char c :: nat) \<le> 122)"

definition is_upper :: "char \<Rightarrow> bool" where
  "is_upper c = (65 \<le> (of_char c :: nat) \<and> (of_char c :: nat) \<le> 90)"

definition to_upper :: "char \<Rightarrow> char" where
  "to_upper c = (if is_lower c then char_of ((of_char c :: nat) - 32) else c)"

definition to_lower :: "char \<Rightarrow> char" where
  "to_lower c = (if is_upper c then char_of ((of_char c :: nat) + 32) else c)"

fun title_from :: "bool \<Rightarrow> string \<Rightarrow> string" where
  "title_from previous_is_cased [] = []"
| "title_from previous_is_cased (c # cs) =
     (if is_lower c then (if previous_is_cased then c else to_upper c) # title_from True cs
      else if is_upper c then (if previous_is_cased then to_lower c else c) # title_from True cs
      else c # title_from False cs)"

definition title :: "string \<Rightarrow> string" where
  "title s = title_from False s"

definition etiqueta :: "string \<Rightarrow> string" where
  "etiqueta var = replace ''Hba1c'' ''HbA1c'' (replace ''Imc'' ''IMC'' (title (replace ''_'' '' '' var)))"

text \<open>
  The loop of \<open>create_or_chart\<close> over the rows, with its three lists \<open>relevant_vars\<close>,
  \<open>or_values\<close> and \<open>colors\<close>; they become the y, x and marker colours of the bar chart.
\<close>

fun or_chart_loop ::
  "or_table \<Rightarrow> string list \<times> real list \<times> string list \<Rightarrow> string list \<times> real list \<times> string list" where
  "or_chart_loop [] acc = acc"
| "or_chart_loop (row # rows) (relevant_vars, or_values, colors) =
     (let var = variable_clinica row; or_val = odds_ratio row in
      if or_val > 1.0 then
        or_chart_loop rows
          (relevant_vars @ [etiqueta var],
           or_values @ [or_val],
           colors @ [if or_val > 2.0 then ''#EF476F'' else ''#FFD166''])
      else or_chart_loop rows (relevant_vars, or_values, colors))"

record or_fig =
  fig_y :: "string list"
  fig_x :: "real list"
  fig_colors :: "string list"

text \<open>\<open>tabla_or.empty\<close> holds for a table with no rows. \<open>patient_data\<close> is not used.\<close>

definition create_or_chart :: "or_table option \<Rightarrow> (string \<rightharpoonup> real) \<Rightarrow> or_fig option" where
  "create_or_chart tabla_or data =
     (case tabla_or of
        None \<Rightarrow> None
      | Some t \<Rightarrow>
          if t = [] then None
          else (case or_chart_loop t ([], [], []) of
                  (relevant_vars, or_values, colors) \<Rightarrow>
                    if relevant_vars = [] then None
                    else Some \<lparr>fig_y = relevant_vars, fig_x = or_values, fig_colors = colors\<rparr>))"

section \<open>Section 3: factors identified in the patient\<close>

text \<open>
  One entry of \<open>factores_identificados\<close>: the template chosen, with the patient's value
  (where the template shows it) and the odds ratio formatted into it.
\<close>

datatype factor =
    GlucosaElevada real real
  | HbA1cDiabetes real real
  | HbA1cPrediabetes real real
  | IMCElevado real real
  | HipertensionPresente real
  | CardiopatiaPresente real

text \<open>
  The body of the loop for one row: what it appends. The patient's value is looked up
  first, \<open>patient_data[var]\<close>, and a missing key raises \<open>KeyError\<close>.
\<close>

definition evaluar_fila :: "(string \<rightharpoonup> real) \<Rightarrow> or_row \<Rightarrow> error + factor list" where
  "evaluar_fila data row =
     (let var = variable_clinica row; or_val = odds_ratio row in
      case data var of
        None \<Rightarrow> Inl (KeyError var)
      | Some paciente_val \<Rightarrow>
          Inr (if or_val > 1.0 then
                 (if var = ''nivel_glucosa'' \<and> paciente_val > 100 then
                    [GlucosaElevada paciente_val or_val]
                  else if var = ''nivel_hba1c'' then
                    (if paciente_val \<ge> 6.5 then [HbA1cDiabetes paciente_val or_val]
                     else if paciente_val \<ge> 5.7 then [HbA1cPrediabetes paciente_val or_val]
                     else [])
                  else if var = ''imc'' \<and> paciente_val > 25 then
                    [IMCElevado paciente_val or_val]
                  else if var = ''hipertension'' \<and> paciente_val = 1 then
                    [HipertensionPresente or_val]
                  else if var = ''cardiopatia'' \<and> paciente_val = 1 then
                    [CardiopatiaPresente or_val]
                  else [])
               else []))"

fun factores_loop :: "(string \<rightharpoonup> real) \<Rightarrow> or_table \<Rightarrow> factor list \<Rightarrow> error + factor list" where
  "factores_loop data [] factores = Inr factores"
| "factores_loop data (row # rows) factores =
     (case evaluar_fila data row of
        Inl e \<Rightarrow> Inl e
      | Inr nuevos \<Rightarrow> factores_loop data rows (factores @ nuevos))"

text \<open>
  The loop runs on the global \<open>TABLA_OR\<close> with no guard: on \<open>None\<close> the call
  \<open>TABLA_OR.iterrows()\<close> raises \<open>AttributeError\<close>.
\<close>

definition factores_identificados :: "or_table option \<Rightarrow> (string \<rightharpoonup> real) \<Rightarrow> error + factor list" where
  "factores_identificados TABLA_OR data =
     (case TABLA_OR of
        None \<Rightarrow> Inl AttributeError
      | Some t \<Rightarrow> factores_loop data t [])"

section \<open>The run of the script after a diagnosis is requested\<close>

datatype pruebas = PruebasAlto | PruebasModerado | PruebasBajo

definition pruebas_sugeridas :: "real \<Rightarrow> pruebas" where
  "pruebas_sugeridas pct =
     (if pct \<ge> 50 then PruebasAlto else if pct \<ge> 20 then PruebasModerado else PruebasBajo)"

text \<open>
  The elements the run puts on the page, in order. Headings and the cards whose text
  is fixed are left out. An exception ends the run: what was rendered before it stays
  on the page.
\<close>

datatype element =
    PlotlyGauge gauge
  | AlertBanner alert
  | ParamsDataframe "(string \<times> estado) list"
  | MetricCategoria string
  | MetricConfianza nat
  | PlotlyOrChart or_fig
  | InfoSinFactores
  | OrDataframe "or_table option"
  | FactorCard factor
  | SuccessSinFactores
  | RecomendacionCard recomendacion
  | PruebasCard pruebas

definition seccion1 :: "real \<Rightarrow> sidebar \<Rightarrow> element list" where
  "seccion1 prob s =
     [PlotlyGauge (create_gauge_chart prob),
      AlertBanner (fst (interpretacion (riesgo_pct prob))),
      ParamsDataframe (params_display s),
      MetricCategoria (riesgo_categoria (riesgo_pct prob)),
      MetricConfianza (confianza (riesgo_pct prob))]"

definition seccion2 :: "or_table option \<Rightarrow> sidebar \<Rightarrow> element list" where
  "seccion2 TABLA_OR s =
     [case create_or_chart TABLA_OR (patient_data s) of
        Some or_chart \<Rightarrow> PlotlyOrChart or_chart
      | None \<Rightarrow> InfoSinFactores,
      OrDataframe TABLA_OR]"

definition seccion4 :: "real \<Rightarrow> element list" where
  "seccion4 prob =
     [RecomendacionCard (snd (interpretacion (riesgo_pct prob))),
      PruebasCard (pruebas_sugeridas (riesgo_pct prob))]"

definition diagnostico ::
  "model option \<times> scaler option \<times> or_table option \<Rightarrow> sidebar \<Rightarrow> element list \<times> error option" where
  "diagnostico resources s =
     (case resources of
        (MODEL, SCALER, TABLA_OR) \<Rightarrow>
          (case predict_diabetes MODEL SCALER (patient_data s) of
             Inl e \<Rightarrow> ([], Some e)
           | Inr (prob, input_df) \<Rightarrow>
               (case factores_identificados TABLA_OR (patient_data s) of
                  Inl e \<Rightarrow> (seccion1 prob s @ seccion2 TABLA_OR s, Some e)
                | Inr factores \<Rightarrow>
                    (seccion1 prob s @ seccion2 TABLA_OR s
                       @ (if factores \<noteq> [] then map FactorCard factores else [SuccessSinFactores])
                       @ seccion4 prob,
                     None))))"

section \<open>The factor loop as the specification words it\<close>

text \<open>
  Written from the specification, for comparison with \<open>factores_identificados\<close>: a row
  gives an explanation exactly when its odds ratio is above 1.0 and the patient's value
  of that variable crosses the variable's threshold.
\<close>

definition explicacion_spec :: "sidebar \<Rightarrow> or_row \<Rightarrow> factor option" where
  "explicacion_spec s row =
     (let var = variable_clinica row; r = odds_ratio row in
      if \<not> r > 1.0 then None
      else if var = ''nivel_glucosa'' \<and> glucosa s > 100 then Some (GlucosaElevada (glucosa s) r)
      else if var = ''nivel_hba1c'' \<and> hba1c s \<ge> 6.5 then Some (HbA1cDiabetes (hba1c s) r)
      else if var = ''nivel_hba1c'' \<and> hba1c s \<ge> 5.7 then Some (HbA1cPrediabetes (hba1c s) r)
      else if var = ''imc'' \<and> imc s > 25 then Some (IMCElevado (imc s) r)
      else if var = ''hipertension'' \<and> hipertension s then Some (HipertensionPresente r)
      else if var = ''cardiopatia'' \<and> cardiopatia s then Some (CardiopatiaPresente r)
      else None)"

definition explicaciones_spec :: "sidebar \<Rightarrow> or_table \<Rightarrow> factor list" where
  "explicaciones_spec s t = List.map_filter (explicacion_spec s) t"

text \<open>The variable a reported factor is about, and the odds ratio it quotes.\<close>

fun factor_variable :: "factor \<Rightarrow> string" where
  "factor_variable (GlucosaElevada v r) = ''nivel_glucosa''"
| "factor_variable (HbA1cDiabetes v r) = ''nivel_hba1c''"
| "factor_variable (HbA1cPrediabetes v r) = ''nivel_hba1c''"
| "factor_variable (IMCElevado v r) = ''imc''"
| "factor_variable (HipertensionPresente r) = ''hipertension''"
| "factor_variable (CardiopatiaPresente r) = ''cardiopatia''"

fun factor_or :: "factor \<Rightarrow> real" where
  "factor_or (GlucosaElevada v r) = r"
| "factor_or (HbA1cDiabetes v r) = r"
| "factor_or (HbA1cPrediabetes v r) = r"
| "factor_or (IMCElevado v r) = r"
| "factor_or (HipertensionPresente r) = r"
| "factor_or (CardiopatiaPresente r) = r"

section \<open>Auxiliary facts\<close>

lemma dom_patient_data: "dom (patient_data s) = set FEATURES"
  by (auto simp: patient_data_def FEATURES_def)

lemma those_DataFrame_patient_data:
  "those (DataFrame (patient_data s) FEATURES) = Some [glucosa s, hba1c s, imc s, ht_val s, cp_val s]"
  by (simp add: DataFrame_def patient_data_def FEATURES_def)

lemma DataFrame_patient_data:
  "DataFrame (patient_data s) FEATURES = map Some [glucosa s, hba1c s, imc s, ht_val s, cp_val s]"
  by (simp add: DataFrame_def patient_data_def FEATURES_def)

lemma ulp_exponent_eq:
  assumes "2 powi e \<le> \<bar>x\<bar>" and "\<bar>x\<bar> < 2 powi (e + 1)" and "- 1022 \<le> e"
  shows "ulp_exponent x = e - 52"
proof -
  have pos: "0 < \<bar>x\<bar>"
    using assms(1) zero_less_power_int [of "2::real" e] by linarith
  have "2 powr (of_int e) = (2::real) powi e" and "2 powr (of_int e + 1) = (2::real) powi (e + 1)"
    using powr_real_of_int' [of "2::real" e] powr_real_of_int' [of "2::real" "e + 1"] by simp_all
  then have "\<lfloor>log 2 \<bar>x\<bar>\<rfloor> = e"
    using assms(1,2) pos floor_log_eq_powr_iff [of "\<bar>x\<bar>" 2 e] by simp
  then show ?thesis using assms(3) by (simp add: ulp_exponent_def)
qed

lemma round_half_even_eq:
  assumes "\<bar>q - of_int n\<bar> < 1 / 2"
  shows "round_half_even q = n"
proof (cases "of_int n \<le> q")
  case True
  then have "\<lfloor>q\<rfloor> = n" using assms by (intro floor_unique) linarith+
  then show ?thesis using assms True by (simp add: round_half_even_def Let_def)
next
  case False
  then have "\<lfloor>q\<rfloor> = n - 1" using assms by (intro floor_unique) (simp, linarith)+
  then show ?thesis using assms False by (simp add: round_half_even_def Let_def)
qed

lemma float64_eq:
  assumes "2 powi e \<le> \<bar>x\<bar>" and "\<bar>x\<bar> < 2 powi (e + 1)" and "- 1022 \<le> e"
    and "\<bar>x / 2 powi (e - 52) - of_int n\<bar> < 1 / 2"
  shows "float64 x = of_int n * 2 powi (e - 52)"
proof -
  have "x \<noteq> 0"
  proof
    assume "x = 0"
    with assms(1) have "(2::real) powi e \<le> 0" by simp
    moreover have "0 < (2::real) powi e" by (rule zero_less_power_int) simp
    ultimately show False by linarith
  qed
  then show ?thesis
    using ulp_exponent_eq [OF assms(1-3)] round_half_even_eq [OF assms(4)]
    by (simp add: float64_def)
qed



text \<open>
  Rounding keeps a value on the right side of any bound that lies on its own grid. With
  it, the cascade on \<open>riesgo_pct\<close> follows the thresholds 0.50 and 0.20 at every binary64
  probability in [0,1] except the one just below 0.2.
\<close>

lemma round_half_even_le:
  assumes "q < of_int N + 1 / 2"
  shows "round_half_even q \<le> N"
proof -
  have f: "of_int \<lfloor>q\<rfloor> \<le> q" and g: "q < of_int \<lfloor>q\<rfloor> + 1" by linarith+
  have "\<lfloor>q\<rfloor> \<le> N" using assms f by linarith
  moreover have "q - of_int \<lfloor>q\<rfloor> \<ge> 1 / 2 \<Longrightarrow> \<lfloor>q\<rfloor> + 1 \<le> N"
  proof -
    assume "q - of_int \<lfloor>q\<rfloor> \<ge> 1 / 2"
    with assms have "real_of_int \<lfloor>q\<rfloor> < of_int N" by linarith
    then show ?thesis by linarith
  qed
  ultimately show ?thesis
    by (auto simp: round_half_even_def Let_def)
qed

lemma round_half_even_ge:
  assumes "of_int N - 1 / 2 < q"
  shows "N \<le> round_half_even q"
proof -
  have f: "of_int \<lfloor>q\<rfloor> \<le> q" and g: "q < of_int \<lfloor>q\<rfloor> + 1" by linarith+
  have a: "N \<le> \<lfloor>q\<rfloor> + 1" using assms g by linarith
  have b: "q - of_int \<lfloor>q\<rfloor> \<le> 1 / 2 \<Longrightarrow> N \<le> \<lfloor>q\<rfloor>"
  proof -
    assume "q - of_int \<lfloor>q\<rfloor> \<le> 1 / 2"
    with assms have "real_of_int N < of_int \<lfloor>q\<rfloor> + 1" by linarith
    then show ?thesis by linarith
  qed
  show ?thesis using a b
    by (auto simp: round_half_even_def Let_def)
qed

lemma ulp_exponent_le:
  assumes "x \<noteq> 0" and "\<bar>x\<bar> < 2 powi (j + 53)" and "- 1074 \<le> j"
  shows "ulp_exponent x \<le> j"
proof -
  have "2 powr (of_int (j + 53)) = (2::real) powi (j + 53)"
    using powr_real_of_int' [of "2::real" "j + 53"] by simp
  with assms(1,2) have "log 2 \<bar>x\<bar> < of_int (j + 53)"
    by (simp add: log_less_iff)
  then have "\<lfloor>log 2 \<bar>x\<bar>\<rfloor> < j + 53" by linarith
  then show ?thesis using assms(3) by (simp add: ulp_exponent_def)
qed

lemma power_int_split:
  assumes "k \<le> j"
  shows "(2::real) powi j = of_int (2 ^ nat (j - k)) * 2 powi k"
proof -
  have "(2::real) powi j = 2 powi (j - k) * 2 powi k"
    using power_int_add [of "2::real" "j - k" k] by simp
  moreover have "(2::real) powi (j - k) = 2 ^ nat (j - k)"
    using assms by (simp add: power_int_def)
  ultimately show ?thesis by simp
qed

lemma float64_le_multiple:
  assumes "ulp_exponent x \<le> j" and "x \<le> of_int N * 2 powi j"
  shows "float64 x \<le> of_int N * 2 powi j"
proof (cases "x = 0")
  case True
  with assms(2) show ?thesis by (simp add: float64_def)
next
  case False
  define k where "k = ulp_exponent x"
  define M where "M = N * 2 ^ nat (j - k)"
  have pk: "0 < (2::real) powi k" by (rule zero_less_power_int) simp
  have bound: "of_int N * 2 powi j = of_int M * (2::real) powi k"
    using power_int_split [of k j] assms(1) by (simp add: k_def M_def)
  with assms(2) have "x / 2 powi k \<le> of_int M"
    using pk by (simp add: divide_le_eq)
  then have "round_half_even (x / 2 powi k) \<le> M"
    by (intro round_half_even_le) linarith
  then have "of_int (round_half_even (x / 2 powi k)) * 2 powi k \<le> of_int M * (2::real) powi k"
    using pk by (simp add: mult_right_mono)
  then show ?thesis using False bound by (simp add: float64_def k_def)
qed

lemma float64_ge_multiple:
  assumes "ulp_exponent x \<le> j" and "of_int N * 2 powi j \<le> x"
  shows "of_int N * 2 powi j \<le> float64 x"
proof (cases "x = 0")
  case True
  with assms(2) show ?thesis by (simp add: float64_def)
next
  case False
  define k where "k = ulp_exponent x"
  define M where "M = N * 2 ^ nat (j - k)"
  have pk: "0 < (2::real) powi k" by (rule zero_less_power_int) simp
  have bound: "of_int N * 2 powi j = of_int M * (2::real) powi k"
    using power_int_split [of k j] assms(1) by (simp add: k_def M_def)
  with assms(2) have "of_int M \<le> x / 2 powi k"
    using pk by (simp add: le_divide_eq)
  then have "M \<le> round_half_even (x / 2 powi k)"
    by (intro round_half_even_ge) linarith
  then have "of_int M * (2::real) powi k \<le> of_int (round_half_even (x / 2 powi k)) * 2 powi k"
    using pk by (simp add: mult_right_mono)
  then show ?thesis using False bound by (simp add: float64_def k_def)
qed

lemma float64_le_half_step:
  assumes "2 powi e \<le> \<bar>x\<bar>" and "\<bar>x\<bar> < 2 powi (e + 1)" and "- 1022 \<le> e"
    and "x / 2 powi (e - 52) < of_int N + 1 / 2"
  shows "float64 x \<le> of_int N * 2 powi (e - 52)"
proof -
  have pk: "0 < (2::real) powi (e - 52)" by (rule zero_less_power_int) simp
  have "x \<noteq> 0"
  proof
    assume "x = 0"
    with assms(1) have "(2::real) powi e \<le> 0" by simp
    moreover have "0 < (2::real) powi e" by (rule zero_less_power_int) simp
    ultimately show False by linarith
  qed
  moreover have "round_half_even (x / 2 powi (e - 52)) \<le> N"
    using assms(4) by (rule round_half_even_le)
  then have "of_int (round_half_even (x / 2 powi (e - 52))) * 2 powi (e - 52)
      \<le> of_int N * (2::real) powi (e - 52)"
    using pk by (simp add: mult_right_mono)
  ultimately show ?thesis
    using ulp_exponent_eq [OF assms(1-3)] by (simp add: float64_def)
qed

lemma float64_grid:
  assumes "float64 p = p" and "2 powi e \<le> \<bar>p\<bar>" and "\<bar>p\<bar> < 2 powi (e + 1)" and "- 1022 \<le> e"
  shows "\<exists>n. p = of_int n * 2 powi (e - 52)"
proof -
  have "p \<noteq> 0"
  proof
    assume "p = 0"
    with assms(2) have "(2::real) powi e \<le> 0" by simp
    moreover have "0 < (2::real) powi e" by (rule zero_less_power_int) simp
    ultimately show False by linarith
  qed
  then have "float64 p = of_int (round_half_even (p / 2 powi (e - 52))) * 2 powi (e - 52)"
    using ulp_exponent_eq [OF assms(2-4)] by (simp add: float64_def)
  with assms(1) show ?thesis by metis
qed

lemma float64_le_int:
  assumes "\<bar>x\<bar> < 2 ^ 53" and "x \<le> of_int B"
  shows "float64 x \<le> of_int B"
proof (cases "x = 0")
  case True
  with assms(2) show ?thesis by (simp add: float64_def)
next
  case False
  then have "ulp_exponent x \<le> 0"
    using assms(1) by (intro ulp_exponent_le) (simp_all add: power_int_def)
  from float64_le_multiple [OF this, of B] assms(2) show ?thesis by simp
qed

lemma float64_ge_int:
  assumes "\<bar>x\<bar> < 2 ^ 53" and "of_int B \<le> x"
  shows "of_int B \<le> float64 x"
proof (cases "x = 0")
  case True
  with assms(2) show ?thesis by (simp add: float64_def)
next
  case False
  then have "ulp_exponent x \<le> 0"
    using assms(1) by (intro ulp_exponent_le) (simp_all add: power_int_def)
  from float64_ge_multiple [OF this, of B] assms(2) show ?thesis by simp
qed

lemma pct_high:
  assumes "1 / 2 \<le> p" and "p \<le> 1"
  shows "50 \<le> float64 (p * 100)"
  using float64_ge_int [of "p * 100" 50] assms by simp

lemma pct_moderate_lower:
  assumes "1 / 5 \<le> p" and "p \<le> 1"
  shows "20 \<le> float64 (p * 100)"
  using float64_ge_int [of "p * 100" 20] assms by simp

lemma pct_moderate_upper:
  assumes "float64 p = p" and "0 \<le> p" and "p < 1 / 2"
  shows "float64 (p * 100) < 50"
proof (cases "p * 100 < 32")
  case True
  then have "float64 (p * 100) \<le> 32"
    using float64_le_int [of "p * 100" 32] assms(2) by simp
  then show ?thesis by simp
next
  case False
  then have q: "1 / 4 \<le> p" by simp
  have "\<exists>n. p = of_int n * 2 powi (- 2 - 52)"
    using assms q by (intro float64_grid) (simp_all add: power_int_def power_one_over)
  then obtain n where n: "p = of_int n / 2 ^ 54"
    by (auto simp: power_int_def power_one_over)
  with assms(3) have "real_of_int n < 9007199254740992" by simp
  then have "n < 9007199254740992" by linarith
  then have "n \<le> 9007199254740991" by simp
  then have "real_of_int n \<le> 2 ^ 53 - 1" by simp
  then have x: "p * 100 \<le> (2 ^ 53 - 1) / 2 ^ 54 * 100"
    using n by (simp add: divide_right_mono)
  have "float64 (p * 100) \<le> of_int (50 * 2 ^ 47 - 1) * 2 powi (5 - 52)"
    using False assms(3) x by (intro float64_le_half_step) (simp_all add: power_int_def power_one_over)
  then show ?thesis by (simp add: power_int_def power_one_over)
qed

lemma pct_low:
  assumes "float64 p = p" and "0 \<le> p" and "p < 1 / 5" and "p \<noteq> 7205759403792793 / 2 ^ 55"
  shows "float64 (p * 100) < 20"
proof (cases "p < 1 / 8")
  case True
  then have "float64 (p * 100) \<le> 16"
    using float64_le_int [of "p * 100" 16] assms(2) by simp
  then show ?thesis by simp
next
  case False
  have "\<exists>n. p = of_int n * 2 powi (- 3 - 52)"
    using assms False by (intro float64_grid) (simp_all add: power_int_def power_one_over)
  then obtain n where n: "p = of_int n / 2 ^ 55"
    by (auto simp: power_int_def power_one_over)
  with assms(3) have "real_of_int n * 5 < 36028797018963968" by simp
  then have "n * 5 < 36028797018963968" by linarith
  then have "n \<le> 7205759403792793" by linarith
  moreover have "n \<noteq> 7205759403792793" using assms(4) n by auto
  ultimately have "n \<le> 7205759403792792" by simp
  then have "real_of_int n \<le> 7205759403792792" by linarith
  then have x: "p * 100 \<le> 7205759403792792 / 2 ^ 55 * 100"
    using n by (simp add: divide_right_mono)
  have u: "ulp_exponent (p * 100) \<le> - 48" if "p \<noteq> 0"
    using that assms(2,3) by (intro ulp_exponent_le) (simp_all add: power_int_def)
  have "float64 (p * 100) \<le> of_int 5629499534213119 * 2 powi (- 48)"
  proof (cases "p = 0")
    case True
    then show ?thesis by (simp add: float64_def)
  next
    case False
    from u [OF this] x show ?thesis
      by (intro float64_le_multiple) (simp_all add: power_int_def power_one_over)
  qed
  then show ?thesis by (simp add: power_int_def power_one_over)
qed

lemma tier_step_function_on_doubles:
  assumes "float64 p = p" and "0 \<le> p" and "p \<le> 1"
  shows "(p \<ge> 0.50 \<longrightarrow>
      riesgo_categoria (riesgo_pct p) = ''ALTO'' \<and> fst (interpretacion (riesgo_pct p)) = AlertHigh) \<and>
   (0.20 \<le> p \<and> p < 0.50 \<longrightarrow>
      riesgo_categoria (riesgo_pct p) = ''MODERADO'' \<and> fst (interpretacion (riesgo_pct p)) = AlertMedium) \<and>
   (p < 0.20 \<and> p \<noteq> 7205759403792793 / 2 ^ 55 \<longrightarrow>
      riesgo_categoria (riesgo_pct p) = ''BAJO'' \<and> fst (interpretacion (riesgo_pct p)) = AlertLow)"
proof (intro conjI impI)
  assume "p \<ge> 0.50"
  then have "50 \<le> riesgo_pct p"
    using pct_high [of p] assms(3) by (simp add: riesgo_pct_def)
  then show "riesgo_categoria (riesgo_pct p) = ''ALTO''"
    and "fst (interpretacion (riesgo_pct p)) = AlertHigh"
    by (simp_all add: riesgo_categoria_def interpretacion_def)
next
  assume "0.20 \<le> p \<and> p < 0.50"
  then have "20 \<le> riesgo_pct p" and "riesgo_pct p < 50"
    using pct_moderate_lower [of p] pct_moderate_upper [of p] assms
    by (simp_all add: riesgo_pct_def)
  then show "riesgo_categoria (riesgo_pct p) = ''MODERADO''"
    and "fst (interpretacion (riesgo_pct p)) = AlertMedium"
    by (simp_all add: riesgo_categoria_def interpretacion_def)
next
  assume "p < 0.20 \<and> p \<noteq> 7205759403792793 / 2 ^ 55"
  then have "riesgo_pct p < 20"
    using pct_low [of p] assms by (simp add: riesgo_pct_def)
  then show "riesgo_categoria (riesgo_pct p) = ''BAJO''"
    and "fst (interpretacion (riesgo_pct p)) = AlertLow"
    by (simp_all add: riesgo_categoria_def interpretacion_def)
qed

lemma float64_049999: "float64 0.49999 = 9007019110755897 / 2 ^ 54"
proof -
  have "float64 0.49999 = of_int 9007019110755897 * 2 powi (- 2 - 52)"
    by (rule float64_eq) (simp_all add: power_int_def power_one_over)
  then show ?thesis by (simp add: power_int_def power_one_over)
qed

lemma float64_050001: "float64 0.50001 = 4503689699363043 / 2 ^ 53"
proof -
  have "float64 0.50001 = of_int 4503689699363043 * 2 powi (- 1 - 52)"
    by (rule float64_eq) (simp_all add: power_int_def power_one_over)
  then show ?thesis by (simp add: power_int_def power_one_over)
qed

lemma float64_idem_049999: "float64 (9007019110755897 / 2 ^ 54) = 9007019110755897 / 2 ^ 54"
proof -
  have "float64 (9007019110755897 / 2 ^ 54) = of_int 9007019110755897 * 2 powi (- 2 - 52)"
    by (rule float64_eq) (simp_all add: power_int_def power_one_over)
  then show ?thesis by (simp add: power_int_def power_one_over)
qed

lemma float64_idem_050001: "float64 (4503689699363043 / 2 ^ 53) = 4503689699363043 / 2 ^ 53"
proof -
  have "float64 (4503689699363043 / 2 ^ 53) = of_int 4503689699363043 * 2 powi (- 1 - 52)"
    by (rule float64_eq) (simp_all add: power_int_def power_one_over)
  then show ?thesis by (simp add: power_int_def power_one_over)
qed

lemma tier_boundary_examples:
  "riesgo_categoria (riesgo_pct (float64 0.49999)) = ''MODERADO''"
  "riesgo_categoria (riesgo_pct (float64 0.50001)) = ''ALTO''"
proof -
  define a :: real where "a = 9007019110755897 / 2 ^ 54"
  define b :: real where "b = 4503689699363043 / 2 ^ 53"
  have "float64 a = a" unfolding a_def by (rule float64_idem_049999)
  moreover have "0 \<le> a" "a \<le> 1" "0.20 \<le> a \<and> a < 0.50" by (simp_all add: a_def)
  ultimately have "riesgo_categoria (riesgo_pct a) = ''MODERADO''"
    using tier_step_function_on_doubles [of a] by blast
  then show "riesgo_categoria (riesgo_pct (float64 0.49999)) = ''MODERADO''"
    by (simp only: float64_049999 a_def)
  have "float64 b = b" unfolding b_def by (rule float64_idem_050001)
  moreover have "0 \<le> b" "b \<le> 1" "b \<ge> 0.50" by (simp_all add: b_def)
  ultimately have "riesgo_categoria (riesgo_pct b) = ''ALTO''"
    using tier_step_function_on_doubles [of b] by blast
  then show "riesgo_categoria (riesgo_pct (float64 0.50001)) = ''ALTO''"
    by (simp only: float64_050001 b_def)
qed

lemma length_5_conv: "length xs = 5 \<longleftrightarrow> (\<exists>a b c d e. xs = [a, b, c, d, e])"
  by (auto simp: eval_nat_numeral length_Suc_conv)

lemma predict_diabetes_loaded:
  assumes "length (sc_mean sc) = 5" and "length (sc_scale sc) = 5" and "0 \<notin> set (sc_scale sc)"
    and "length (coef m) = 5"
  shows "predict_diabetes (Some m) (Some sc) (patient_data s) =
     Inr (expit (intercept m +
            (\<Sum>i<5. coef m ! i *
               (([glucosa s, hba1c s, imc s, ht_val s, cp_val s] ! i - sc_mean sc ! i) / sc_scale sc ! i))),
          Some (map Some [glucosa s, hba1c s, imc s, ht_val s, cp_val s]))"
proof -
  obtain m1 m2 m3 m4 m5 where mean: "sc_mean sc = [m1, m2, m3, m4, m5]"
    using assms(1) by (auto simp: length_5_conv)
  obtain s1 s2 s3 s4 s5 where scale: "sc_scale sc = [s1, s2, s3, s4, s5]"
    using assms(2) by (auto simp: length_5_conv)
  obtain w1 w2 w3 w4 w5 where w: "coef m = [w1, w2, w3, w4, w5]"
    using assms(4) by (auto simp: length_5_conv)
  have tr: "transform sc [glucosa s, hba1c s, imc s, ht_val s, cp_val s] =
      Inr [(glucosa s - m1) / s1, (hba1c s - m2) / s2, (imc s - m3) / s3,
           (ht_val s - m4) / s4, (cp_val s - m5) / s5]"
    using assms(3) by (simp add: transform_def mean scale)
  show ?thesis
    by (simp add: predict_diabetes_def those_DataFrame_patient_data DataFrame_patient_data tr
        predict_proba_def decision_function_def w mean scale eval_nat_numeral lessThan_Suc algebra_simps)
qed

lemma evaluar_fila_spec:
  assumes "variable_clinica row \<in> set FEATURES"
  shows "evaluar_fila (patient_data s) row =
     Inr (case explicacion_spec s row of None \<Rightarrow> [] | Some f \<Rightarrow> [f])"
  using assms
  by (auto simp: evaluar_fila_def explicacion_spec_def patient_data_def FEATURES_def
      ht_val_def cp_val_def Let_def)

lemma evaluar_fila_KeyError:
  assumes "variable_clinica row \<notin> set FEATURES"
  shows "evaluar_fila (patient_data s) row = Inl (KeyError (variable_clinica row))"
proof -
  have "patient_data s (variable_clinica row) = None"
    using assms dom_patient_data [of s] by blast
  then show ?thesis by (simp add: evaluar_fila_def Let_def)
qed

lemma factores_loop_spec:
  assumes "set (map variable_clinica t) \<subseteq> set FEATURES"
  shows "factores_loop (patient_data s) t acc = Inr (acc @ List.map_filter (explicacion_spec s) t)"
  using assms
proof (induction t arbitrary: acc)
  case Nil
  then show ?case by (simp add:)
next
  case (Cons row rows)
  then have "variable_clinica row \<in> set FEATURES" and "set (map variable_clinica rows) \<subseteq> set FEATURES"
    by simp_all
  then show ?case
    using Cons.IH by (simp add: evaluar_fila_spec split: option.splits)
qed

lemma factores_loop_KeyError:
  assumes "row \<in> set t" and "variable_clinica row \<notin> set FEATURES"
  shows "\<exists>r \<in> set t. variable_clinica r \<notin> set FEATURES \<and>
           factores_loop (patient_data s) t acc = Inl (KeyError (variable_clinica r))"
  using assms
proof (induction t arbitrary: acc)
  case Nil
  then show ?case by simp
next
  case (Cons a rows)
  show ?case
  proof (cases "variable_clinica a \<in> set FEATURES")
    case True
    with Cons.prems have "row \<in> set rows" by auto
    from Cons.IH [OF this Cons.prems(2)] True show ?thesis
      by (auto simp: evaluar_fila_spec)
  next
    case False
    then show ?thesis by (simp add: evaluar_fila_KeyError)
  qed
qed

lemma factores_loop_sound:
  "factores_loop data t acc = Inr fs \<Longrightarrow> f \<in> set fs \<Longrightarrow> f \<notin> set acc \<Longrightarrow>
     \<exists>row \<in> set t. odds_ratio row > 1 \<and> variable_clinica row = factor_variable f \<and>
        odds_ratio row = factor_or f"
proof (induction t arbitrary: acc)
  case Nil
  then show ?case by simp
next
  case (Cons a rows)
  from Cons.prems(1) obtain nuevos where ev: "evaluar_fila data a = Inr nuevos"
    and rest: "factores_loop data rows (acc @ nuevos) = Inr fs"
    by (auto split: sum.splits)
  show ?case
  proof (cases "f \<in> set nuevos")
    case True
    with ev have "odds_ratio a > 1 \<and> variable_clinica a = factor_variable f \<and> odds_ratio a = factor_or f"
      by (auto simp: evaluar_fila_def Let_def split: option.splits if_splits)
    then show ?thesis by simp
  next
    case False
    with Cons.prems(3) have "f \<notin> set (acc @ nuevos)" by simp
    from Cons.IH [OF rest Cons.prems(2) this] show ?thesis by auto
  qed
qed

lemma or_chart_loop_filter:
  "or_chart_loop t (vs, xs, cs) =
     (vs @ map (\<lambda>r. etiqueta (variable_clinica r)) (filter (\<lambda>r. odds_ratio r > 1) t),
      xs @ map odds_ratio (filter (\<lambda>r. odds_ratio r > 1) t),
      cs @ map (\<lambda>r. if odds_ratio r > 2 then ''#EF476F'' else ''#FFD166'') (filter (\<lambda>r. odds_ratio r > 1) t))"
  by (induction t arbitrary: vs xs cs) (simp_all add: Let_def)

lemma in_set_map_filter:
  "x \<in> set xs \<Longrightarrow> f x = Some y \<Longrightarrow> y \<in> set (List.map_filter f xs)"
  by (induction xs) (auto split: option.splits)

lemma etiqueta_examples:
  "etiqueta ''nivel_glucosa'' = ''Nivel Glucosa''"
  "etiqueta ''nivel_hba1c'' = ''Nivel Hba1C''"
  "etiqueta ''imc'' = ''IMC''"
  by code_simp+

section \<open>Tiering\<close>


section \<open>Scoring\<close>

text \<open>
  C2. With scaler and classifier loaded (five means, five non-zero scales, five
  weights), the score of a patient record is the sigmoid \<open>1 / (1 + exp (- L))\<close> of the
  logit \<open>L = intercept + (\<Sum>i. w i * z i)\<close>, each feature standardised as
  \<open>z i = (x i - mean i) / scale i\<close>; the features are taken in the order of \<open>FEATURES\<close>.
  The ranges of the fields play no part.
\<close>

theorem predict_diabetes_sigmoid:
  assumes "length (sc_mean sc) = 5" and "length (sc_scale sc) = 5" and "0 \<notin> set (sc_scale sc)"
    and "length (coef m) = 5"
  shows "predict_diabetes (Some m) (Some sc) (patient_data s) =
     Inr (1 / (1 + exp (- (intercept m +
            (\<Sum>i<5. coef m ! i *
               (([glucosa s, hba1c s, imc s, ht_val s, cp_val s] ! i - sc_mean sc ! i) / sc_scale sc ! i))))),
          Some (map Some [glucosa s, hba1c s, imc s, ht_val s, cp_val s]))"
  using predict_diabetes_loaded [OF assms, of s] by (simp only: expit_def)

theorem predict_diabetes_sigmoid_witness:
  "length (sc_mean \<lparr>sc_mean = [100, 5, 25, 0, 0], sc_scale = [10, 2, 5, 1, 1]\<rparr>) = 5 \<and>
   length (sc_scale \<lparr>sc_mean = [100, 5, 25, 0, 0], sc_scale = [10, 2, 5, 1, 1]\<rparr>) = 5 \<and>
   0 \<notin> set (sc_scale \<lparr>sc_mean = [100, 5, 25, 0, 0], sc_scale = [10, 2, 5, 1, 1]\<rparr>) \<and>
   length (coef \<lparr>coef = [1, 2, 3, - 1, 4], intercept = - 4\<rparr>) = 5 \<and>
   predict_diabetes (Some \<lparr>coef = [1, 2, 3, - 1, 4], intercept = - 4\<rparr>)
     (Some \<lparr>sc_mean = [100, 5, 25, 0, 0], sc_scale = [10, 2, 5, 1, 1]\<rparr>)
     (patient_data \<lparr>glucosa = 120, hba1c = 7, imc = 30, hipertension = True, cardiopatia = False\<rparr>) =
   Inr (1 / (1 + exp (- 2)), Some [Some 120, Some 7, Some 30, Some 1, Some 0])"
  using predict_diabetes_sigmoid [of "\<lparr>sc_mean = [100, 5, 25, 0, 0], sc_scale = [10, 2, 5, 1, 1]\<rparr>"
      "\<lparr>coef = [1, 2, 3, - 1, 4], intercept = - 4\<rparr>"
      "\<lparr>glucosa = 120, hba1c = 7, imc = 30, hipertension = True, cardiopatia = False\<rparr>"]
  by (simp add: ht_val_def cp_val_def eval_nat_numeral lessThan_Suc)

text \<open>
  C4. If the classifier or the scaler is not loaded, the score of any record is exactly
  0.0 and no error is raised.
\<close>

theorem predict_diabetes_fallback:
  "MODEL = None \<or> SCALER = None \<Longrightarrow> predict_diabetes MODEL SCALER data = Inr (0, None)"
  by (auto simp: predict_diabetes_def split: option.splits)

theorem predict_diabetes_fallback_witness:
  "((None :: model option) = None \<or> Some \<lparr>sc_mean = [100, 5, 25, 0, 0], sc_scale = [10, 1, 5, 1, 1]\<rparr> = None) \<and>
   predict_diabetes None (Some \<lparr>sc_mean = [100, 5, 25, 0, 0], sc_scale = [10, 1, 5, 1, 1]\<rparr>)
     (patient_data \<lparr>glucosa = 300, hba1c = 15, imc = 80, hipertension = True, cardiopatia = True\<rparr>) =
   Inr (0, None)"
  using predict_diabetes_fallback [of None "Some \<lparr>sc_mean = [100, 5, 25, 0, 0], sc_scale = [10, 1, 5, 1, 1]\<rparr>"
      "patient_data \<lparr>glucosa = 300, hba1c = 15, imc = 80, hipertension = True, cardiopatia = True\<rparr>"]
  by simp

section \<open>Degraded operation\<close>

text \<open>
  C8. With the classifier or the scaler missing, the fallback probability 0.0 puts every
  patient record in the low tier: the run renders the gauge at 0 in green, the low-risk
  banner and the category BAJO, whatever values were entered.
\<close>

theorem fallback_renders_low:
  "MODEL = None \<or> SCALER = None \<Longrightarrow>
   predict_diabetes MODEL SCALER (patient_data s) = Inr (0, None) \<and>
   take 5 (fst (diagnostico (MODEL, SCALER, TABLA_OR) s)) =
     [PlotlyGauge \<lparr>gauge_value = 0, bar_color = ''#06D6A0'', number_color = ''#06D6A0''\<rparr>,
      AlertBanner AlertLow,
      ParamsDataframe (params_display s),
      MetricCategoria ''BAJO'',
      MetricConfianza 95]"
proof -
  assume "MODEL = None \<or> SCALER = None"
  then have p: "predict_diabetes MODEL SCALER (patient_data s) = Inr (0, None)"
    by (auto simp: predict_diabetes_def split: option.splits)
  have s1: "seccion1 0 s =
     [PlotlyGauge \<lparr>gauge_value = 0, bar_color = ''#06D6A0'', number_color = ''#06D6A0''\<rparr>,
      AlertBanner AlertLow,
      ParamsDataframe (params_display s),
      MetricCategoria ''BAJO'',
      MetricConfianza 95]"
    by (simp add: seccion1_def create_gauge_chart_def interpretacion_def riesgo_pct_def
        float64_def riesgo_categoria_def confianza_def)
  have "take 5 (fst (diagnostico (MODEL, SCALER, TABLA_OR) s)) = seccion1 0 s"
    by (simp add: diagnostico_def p s1 split: sum.splits)
  with p s1 show ?thesis by simp
qed

theorem fallback_renders_low_witness:
  "((None :: model option) = None \<or> (None :: scaler option) = None) \<and>
   take 5 (fst (diagnostico (None, None, None)
      \<lparr>glucosa = 300, hba1c = 15, imc = 80, hipertension = True, cardiopatia = True\<rparr>)) =
     [PlotlyGauge \<lparr>gauge_value = 0, bar_color = ''#06D6A0'', number_color = ''#06D6A0''\<rparr>,
      AlertBanner AlertLow,
      ParamsDataframe [(''Glucosa'', Elevado), (''HbA1c'', Elevado), (''IMC'', Elevado),
        (''Hipertension'', Presente), (''Cardiopatia'', Presente)],
      MetricCategoria ''BAJO'',
      MetricConfianza 95]"
  using fallback_renders_low [of None None
      "\<lparr>glucosa = 300, hba1c = 15, imc = 80, hipertension = True, cardiopatia = True\<rparr>" None]
  by (simp add: params_display_def ht_val_def cp_val_def)

text \<open>
  C5. With a resource missing the run of a diagnosis is to go on without an exception.
  The loader leaves the table \<open>None\<close> whenever any of the three files is missing, and the
  loop over the table has no guard for \<open>None\<close>, unlike the chart and the scorer. With
  only the table file missing: model and scaler are loaded, the error names the table
  file, the run renders sections 1 and 2 and then ends in \<open>AttributeError\<close>. With only
  the model file missing: nothing is loaded and the run ends the same way.
\<close>

theorem missing_resource_run_raises:
  "load_resources \<lparr>modelo_diabetes_logreg_pkl = Some \<lparr>coef = [1, 2, 3, - 1, 4], intercept = - 4\<rparr>,
      scaler_diabetes_pkl = Some \<lparr>sc_mean = [100, 5, 25, 0, 0], sc_scale = [10, 2, 5, 1, 1]\<rparr>,
      odds_ratios_reales_csv = None\<rparr> =
     ((Some \<lparr>coef = [1, 2, 3, - 1, 4], intercept = - 4\<rparr>,
       Some \<lparr>sc_mean = [100, 5, 25, 0, 0], sc_scale = [10, 2, 5, 1, 1]\<rparr>, None),
      StError ''odds_ratios_reales.csv'') \<and>
   snd (diagnostico
      (Some \<lparr>coef = [1, 2, 3, - 1, 4], intercept = - 4\<rparr>,
       Some \<lparr>sc_mean = [100, 5, 25, 0, 0], sc_scale = [10, 2, 5, 1, 1]\<rparr>, None)
      \<lparr>glucosa = 120, hba1c = 5.5, imc = 25, hipertension = False, cardiopatia = False\<rparr>) =
     Some AttributeError \<and>
   create_or_chart None
      (patient_data \<lparr>glucosa = 120, hba1c = 5.5, imc = 25, hipertension = False, cardiopatia = False\<rparr>) =
     None \<and>
   load_resources \<lparr>modelo_diabetes_logreg_pkl = None,
      scaler_diabetes_pkl = Some \<lparr>sc_mean = [100, 5, 25, 0, 0], sc_scale = [10, 2, 5, 1, 1]\<rparr>,
      odds_ratios_reales_csv = Some [\<lparr>variable_clinica = ''imc'', odds_ratio = 1.1\<rparr>]\<rparr> =
     ((None, None, None), StError ''modelo_diabetes_logreg.pkl'') \<and>
   snd (diagnostico (None, None, None)
      \<lparr>glucosa = 120, hba1c = 5.5, imc = 25, hipertension = False, cardiopatia = False\<rparr>) =
     Some AttributeError"
  by (simp add: load_resources_def diagnostico_def factores_identificados_def create_or_chart_def
      predict_diabetes_def those_DataFrame_patient_data transform_def predict_proba_def
      split: sum.splits)

section \<open>Factor explainer\<close>

text \<open>
  C6, as claimed for every table: an explanation is emitted for a row exactly when the
  specification's condition holds. It fails on a table with a variable name that the
  patient dict lacks: the first row calls for an explanation, the run raises \<open>KeyError\<close>
  on the second row and emits nothing.
\<close>

theorem factores_identificados_foreign_counterexample:
  "explicaciones_spec \<lparr>glucosa = 180, hba1c = 8, imc = 32, hipertension = True, cardiopatia = False\<rparr>
     [\<lparr>variable_clinica = ''nivel_glucosa'', odds_ratio = 2\<rparr>,
      \<lparr>variable_clinica = ''edad'', odds_ratio = 0.5\<rparr>] = [GlucosaElevada 180 2] \<and>
   factores_identificados
     (Some [\<lparr>variable_clinica = ''nivel_glucosa'', odds_ratio = 2\<rparr>,
            \<lparr>variable_clinica = ''edad'', odds_ratio = 0.5\<rparr>])
     (patient_data \<lparr>glucosa = 180, hba1c = 8, imc = 32, hipertension = True, cardiopatia = False\<rparr>) =
   Inl (KeyError ''edad'')"
  by (simp add: explicaciones_spec_def explicacion_spec_def
      factores_identificados_def evaluar_fila_def patient_data_def)

text \<open>
  C6, amended. For every table whose variable names are all among the five feature
  keys, and every patient record, the loop returns exactly the explanations the
  specification words, one per row that has an odds ratio above 1.0 and a value
  crossing its threshold, in the order of the rows.
\<close>

theorem factores_identificados_spec:
  assumes "set (map variable_clinica t) \<subseteq> set FEATURES"
  shows "factores_identificados (Some t) (patient_data s) = Inr (explicaciones_spec s t)"
  using factores_loop_spec [OF assms, of s "[]"]
  by (simp add: factores_identificados_def explicaciones_spec_def)

theorem factores_identificados_spec_witness:
  "set (map variable_clinica
      [\<lparr>variable_clinica = ''nivel_glucosa'', odds_ratio = 1.03\<rparr>,
       \<lparr>variable_clinica = ''nivel_hba1c'', odds_ratio = 2.5\<rparr>,
       \<lparr>variable_clinica = ''imc'', odds_ratio = 1.09\<rparr>,
       \<lparr>variable_clinica = ''hipertension'', odds_ratio = 1.8\<rparr>,
       \<lparr>variable_clinica = ''cardiopatia'', odds_ratio = 1.5\<rparr>]) \<subseteq> set FEATURES \<and>
   factores_identificados
     (Some [\<lparr>variable_clinica = ''nivel_glucosa'', odds_ratio = 1.03\<rparr>,
       \<lparr>variable_clinica = ''nivel_hba1c'', odds_ratio = 2.5\<rparr>,
       \<lparr>variable_clinica = ''imc'', odds_ratio = 1.09\<rparr>,
       \<lparr>variable_clinica = ''hipertension'', odds_ratio = 1.8\<rparr>,
       \<lparr>variable_clinica = ''cardiopatia'', odds_ratio = 1.5\<rparr>])
     (patient_data \<lparr>glucosa = 180, hba1c = 8, imc = 32, hipertension = True, cardiopatia = False\<rparr>) =
   Inr [GlucosaElevada 180 1.03, HbA1cDiabetes 8 2.5, IMCElevado 32 1.09, HipertensionPresente 1.8]"
  using factores_identificados_spec [of
      "[\<lparr>variable_clinica = ''nivel_glucosa'', odds_ratio = 1.03\<rparr>,
       \<lparr>variable_clinica = ''nivel_hba1c'', odds_ratio = 2.5\<rparr>,
       \<lparr>variable_clinica = ''imc'', odds_ratio = 1.09\<rparr>,
       \<lparr>variable_clinica = ''hipertension'', odds_ratio = 1.8\<rparr>,
       \<lparr>variable_clinica = ''cardiopatia'', odds_ratio = 1.5\<rparr>]"
      "\<lparr>glucosa = 180, hba1c = 8, imc = 32, hipertension = True, cardiopatia = False\<rparr>"]
  by (simp add: FEATURES_def explicaciones_spec_def explicacion_spec_def)

text \<open>
  C7. Every factor reported comes from a row of the table whose odds ratio is above
  1.0, and the bars of the chart are exactly the rows with an odds ratio above 1.0.
\<close>

theorem never_reports_or_le_1:
  "(factores_identificados TABLA_OR data = Inr factores \<longrightarrow>
      (\<forall>f \<in> set factores. \<exists>t. TABLA_OR = Some t \<and>
         (\<exists>row \<in> set t. odds_ratio row > 1.0 \<and> variable_clinica row = factor_variable f \<and>
            odds_ratio row = factor_or f))) \<and>
   (create_or_chart TABLA_OR data = Some fig \<longrightarrow>
      (\<exists>t. TABLA_OR = Some t \<and>
         fig_y fig = map (\<lambda>row. etiqueta (variable_clinica row)) (filter (\<lambda>row. odds_ratio row > 1.0) t) \<and>
         fig_x fig = map odds_ratio (filter (\<lambda>row. odds_ratio row > 1.0) t)) \<and>
      (\<forall>v \<in> set (fig_x fig). v > 1.0))"
proof (intro conjI impI)
  assume a: "factores_identificados TABLA_OR data = Inr factores"
  then obtain t where t: "TABLA_OR = Some t" and l: "factores_loop data t [] = Inr factores"
    by (auto simp: factores_identificados_def split: option.splits)
  show "\<forall>f \<in> set factores. \<exists>t. TABLA_OR = Some t \<and>
         (\<exists>row \<in> set t. odds_ratio row > 1.0 \<and> variable_clinica row = factor_variable f \<and>
            odds_ratio row = factor_or f)"
    using factores_loop_sound [OF l] t by simp
next
  assume "create_or_chart TABLA_OR data = Some fig"
  then obtain t where t: "TABLA_OR = Some t"
    and y: "fig_y fig = map (\<lambda>row. etiqueta (variable_clinica row)) (filter (\<lambda>row. odds_ratio row > 1) t)"
    and x: "fig_x fig = map odds_ratio (filter (\<lambda>row. odds_ratio row > 1) t)"
    by (auto simp: create_or_chart_def or_chart_loop_filter [of _ "[]" "[]" "[]", simplified]
        split: option.splits if_splits)
  from t y x show "\<exists>t. TABLA_OR = Some t \<and>
         fig_y fig = map (\<lambda>row. etiqueta (variable_clinica row)) (filter (\<lambda>row. odds_ratio row > 1.0) t) \<and>
         fig_x fig = map odds_ratio (filter (\<lambda>row. odds_ratio row > 1.0) t)"
    by simp
  from x show "\<forall>v \<in> set (fig_x fig). v > 1.0" by auto
qed

theorem never_reports_or_le_1_witness:
  "factores_identificados
     (Some [\<lparr>variable_clinica = ''nivel_glucosa'', odds_ratio = 1.03\<rparr>,
            \<lparr>variable_clinica = ''cardiopatia'', odds_ratio = 0.8\<rparr>,
            \<lparr>variable_clinica = ''hipertension'', odds_ratio = 1.8\<rparr>])
     (patient_data \<lparr>glucosa = 180, hba1c = 8, imc = 32, hipertension = True, cardiopatia = True\<rparr>) =
     Inr [GlucosaElevada 180 1.03, HipertensionPresente 1.8] \<and>
   factor_or (GlucosaElevada 180 1.03) > 1 \<and> factor_or (HipertensionPresente 1.8) > 1 \<and>
   create_or_chart
     (Some [\<lparr>variable_clinica = ''nivel_glucosa'', odds_ratio = 1.03\<rparr>,
            \<lparr>variable_clinica = ''cardiopatia'', odds_ratio = 0.8\<rparr>,
            \<lparr>variable_clinica = ''hipertension'', odds_ratio = 1.8\<rparr>])
     (patient_data \<lparr>glucosa = 180, hba1c = 8, imc = 32, hipertension = True, cardiopatia = True\<rparr>) =
     Some \<lparr>fig_y = [etiqueta ''nivel_glucosa'', etiqueta ''hipertension''], fig_x = [1.03, 1.8],
           fig_colors = [''#FFD166'', ''#FFD166'']\<rparr> \<and>
   (1.03 :: real) > 1 \<and> (1.8 :: real) > 1"
  using never_reports_or_le_1 [of
      "Some [\<lparr>variable_clinica = ''nivel_glucosa'', odds_ratio = 1.03\<rparr>,
            \<lparr>variable_clinica = ''cardiopatia'', odds_ratio = 0.8\<rparr>,
            \<lparr>variable_clinica = ''hipertension'', odds_ratio = 1.8\<rparr>]"
      "patient_data \<lparr>glucosa = 180, hba1c = 8, imc = 32, hipertension = True, cardiopatia = True\<rparr>"
      "[GlucosaElevada 180 1.03, HipertensionPresente 1.8]"
      "\<lparr>fig_y = [etiqueta ''nivel_glucosa'', etiqueta ''hipertension''], fig_x = [1.03, 1.8],
           fig_colors = [''#FFD166'', ''#FFD166'']\<rparr>"]
  by (simp add: factores_identificados_def evaluar_fila_def patient_data_def ht_val_def cp_val_def
      create_or_chart_def)

text \<open>
  C9. The loop looks the patient's value up by the row's variable name before it tests
  the odds ratio. A table with a row whose name is not one of the five feature keys
  makes the loop raise \<open>KeyError\<close>, whatever that row's odds ratio; a table with only
  feature keys makes it return.
\<close>

theorem factores_identificados_KeyError:
  "((\<exists>row \<in> set t. variable_clinica row \<notin> set FEATURES) \<longrightarrow>
      (\<exists>r \<in> set t. variable_clinica r \<notin> set FEATURES \<and>
         factores_identificados (Some t) (patient_data s) = Inl (KeyError (variable_clinica r)))) \<and>
   ((\<forall>row \<in> set t. variable_clinica row \<in> set FEATURES) \<longrightarrow>
      (\<exists>factores. factores_identificados (Some t) (patient_data s) = Inr factores)) \<and>
   (variable_clinica row \<notin> set FEATURES \<longrightarrow>
      evaluar_fila (patient_data s) row = Inl (KeyError (variable_clinica row)))"
proof (intro conjI impI)
  assume "\<exists>row \<in> set t. variable_clinica row \<notin> set FEATURES"
  then obtain row where "row \<in> set t" and "variable_clinica row \<notin> set FEATURES" by blast
  from factores_loop_KeyError [OF this, of s "[]"]
  show "\<exists>r \<in> set t. variable_clinica r \<notin> set FEATURES \<and>
         factores_identificados (Some t) (patient_data s) = Inl (KeyError (variable_clinica r))"
    by (simp add: factores_identificados_def)
next
  assume "\<forall>row \<in> set t. variable_clinica row \<in> set FEATURES"
  then have "set (map variable_clinica t) \<subseteq> set FEATURES" by auto
  from factores_loop_spec [OF this, of s "[]"]
  show "\<exists>factores. factores_identificados (Some t) (patient_data s) = Inr factores"
    by (simp add: factores_identificados_def)
next
  assume "variable_clinica row \<notin> set FEATURES"
  then show "evaluar_fila (patient_data s) row = Inl (KeyError (variable_clinica row))"
    by (rule evaluar_fila_KeyError)
qed

theorem factores_identificados_KeyError_witness:
  "variable_clinica \<lparr>variable_clinica = ''edad'', odds_ratio = 0.5\<rparr> \<notin> set FEATURES \<and>
   factores_identificados
     (Some [\<lparr>variable_clinica = ''nivel_glucosa'', odds_ratio = 1.03\<rparr>,
            \<lparr>variable_clinica = ''edad'', odds_ratio = 0.5\<rparr>])
     (patient_data \<lparr>glucosa = 90, hba1c = 5, imc = 22, hipertension = False, cardiopatia = False\<rparr>) =
     Inl (KeyError ''edad'') \<and>
   variable_clinica \<lparr>variable_clinica = ''nivel_glucosa'', odds_ratio = 1.03\<rparr> \<in> set FEATURES \<and>
   factores_identificados (Some [\<lparr>variable_clinica = ''nivel_glucosa'', odds_ratio = 1.03\<rparr>])
     (patient_data \<lparr>glucosa = 90, hba1c = 5, imc = 22, hipertension = False, cardiopatia = False\<rparr>) =
     Inr []"
  using factores_identificados_KeyError [of
      "[\<lparr>variable_clinica = ''nivel_glucosa'', odds_ratio = 1.03\<rparr>,
        \<lparr>variable_clinica = ''edad'', odds_ratio = 0.5\<rparr>]"
      "\<lparr>glucosa = 90, hba1c = 5, imc = 22, hipertension = False, cardiopatia = False\<rparr>"
      "\<lparr>variable_clinica = ''edad'', odds_ratio = 0.5\<rparr>"]
    factores_identificados_KeyError [of
      "[\<lparr>variable_clinica = ''nivel_glucosa'', odds_ratio = 1.03\<rparr>]"
      "\<lparr>glucosa = 90, hba1c = 5, imc = 22, hipertension = False, cardiopatia = False\<rparr>"
      "\<lparr>variable_clinica = ''edad'', odds_ratio = 0.5\<rparr>"]
  by (simp add: FEATURES_def factores_identificados_def evaluar_fila_def patient_data_def)

text \<open>
  C10. For a glucose value above 100 and at most 125 the parameter table shows the
  status Normal, while the loop reports the same glucose as elevated for a glucose row
  with an odds ratio above 1.0.
\<close>

theorem glucosa_thresholds_differ:
  assumes "100 < glucosa s" and "glucosa s \<le> 125"
  shows "hd (params_display s) = (''Glucosa'', Normal) \<and>
     (row \<in> set t \<and> variable_clinica row = ''nivel_glucosa'' \<and> odds_ratio row > 1.0 \<and>
      set (map variable_clinica t) \<subseteq> set FEATURES \<longrightarrow>
        (\<exists>factores. factores_identificados (Some t) (patient_data s) = Inr factores \<and>
           GlucosaElevada (glucosa s) (odds_ratio row) \<in> set factores)) \<and>
     (variable_clinica row = ''nivel_glucosa'' \<and> odds_ratio row > 1.0 \<longrightarrow>
        evaluar_fila (patient_data s) row = Inr [GlucosaElevada (glucosa s) (odds_ratio row)])"
proof (intro conjI impI)
  show "hd (params_display s) = (''Glucosa'', Normal)"
    using assms(2) by (simp add: params_display_def)
next
  assume a: "row \<in> set t \<and> variable_clinica row = ''nivel_glucosa'' \<and> odds_ratio row > 1.0 \<and>
      set (map variable_clinica t) \<subseteq> set FEATURES"
  then have e: "explicacion_spec s row = Some (GlucosaElevada (glucosa s) (odds_ratio row))"
    using assms(1) by (simp add: explicacion_spec_def)
  from a have "factores_loop (patient_data s) t [] = Inr ([] @ List.map_filter (explicacion_spec s) t)"
    using factores_loop_spec by blast
  moreover from a e have "GlucosaElevada (glucosa s) (odds_ratio row) \<in> set (List.map_filter (explicacion_spec s) t)"
    by (auto intro: in_set_map_filter)
  ultimately show "\<exists>factores. factores_identificados (Some t) (patient_data s) = Inr factores \<and>
           GlucosaElevada (glucosa s) (odds_ratio row) \<in> set factores"
    by (simp add: factores_identificados_def)
next
  assume "variable_clinica row = ''nivel_glucosa'' \<and> odds_ratio row > 1.0"
  then show "evaluar_fila (patient_data s) row = Inr [GlucosaElevada (glucosa s) (odds_ratio row)]"
    using assms(1) by (simp add: evaluar_fila_def patient_data_def)
qed

theorem glucosa_thresholds_differ_witness:
  "100 < glucosa \<lparr>glucosa = 120, hba1c = 5.5, imc = 25, hipertension = False, cardiopatia = False\<rparr> \<and>
   glucosa \<lparr>glucosa = 120, hba1c = 5.5, imc = 25, hipertension = False, cardiopatia = False\<rparr> \<le> 125 \<and>
   hd (params_display \<lparr>glucosa = 120, hba1c = 5.5, imc = 25, hipertension = False, cardiopatia = False\<rparr>) =
     (''Glucosa'', Normal) \<and>
   factores_identificados
     (Some [\<lparr>variable_clinica = ''nivel_glucosa'', odds_ratio = 1.03\<rparr>,
            \<lparr>variable_clinica = ''imc'', odds_ratio = 1.09\<rparr>])
     (patient_data \<lparr>glucosa = 120, hba1c = 5.5, imc = 25, hipertension = False, cardiopatia = False\<rparr>) =
     Inr [GlucosaElevada 120 1.03]"
  using glucosa_thresholds_differ [of
      "\<lparr>glucosa = 120, hba1c = 5.5, imc = 25, hipertension = False, cardiopatia = False\<rparr>"
      "\<lparr>variable_clinica = ''nivel_glucosa'', odds_ratio = 1.03\<rparr>"
      "[\<lparr>variable_clinica = ''nivel_glucosa'', odds_ratio = 1.03\<rparr>,
        \<lparr>variable_clinica = ''imc'', odds_ratio = 1.09\<rparr>]"]
  by (simp add: FEATURES_def factores_identificados_def evaluar_fila_def patient_data_def)

end
